theory Spec2Isabelle
  imports Complex_Main "HOL-Library.Log_Nat" "HOL-Library.Sublist"
begin

section \<open>Python values as the session sees them\<close>

text \<open>
  The session handles three kinds of Python data: the documents that \<^verbatim>\<open>json.loads\<close>
  returns, the exceptions that operations on them raise, and the keys of its two
  dictionaries. Exceptions are values of \<open>py_error\<close>; a computation that may raise has a
  result of type \<open>py_error + 'a\<close>.
\<close>

datatype py_error = TypeError | KeyError | ValueError | AttributeError

text \<open>
  A Python \<^verbatim>\<open>float\<close> is an IEEE 754 binary64 number: a finite value is given by the
  rational number it denotes (\<open>Finite 0\<close> is \<open>+0.0\<close>), the other values are named.
\<close>

datatype pyfloat = Finite rat | NegZero | PosInf | NegInf | NaN

text \<open>
  What \<^verbatim>\<open>json.loads\<close> produces: \<^verbatim>\<open>None\<close>, \<^verbatim>\<open>bool\<close>, \<^verbatim>\<open>int\<close> (unbounded),
  \<^verbatim>\<open>float\<close>, \<^verbatim>\<open>str\<close>, \<^verbatim>\<open>list\<close> and \<^verbatim>\<open>dict\<close> with string keys (an association
  list in insertion order, looked up with \<open>map_of\<close>).
\<close>

datatype pyval =
    PNone
  | PBool bool
  | PInt int
  | PFloat pyfloat
  | PStr string
  | PList "pyval list"
  | PDict "(string \<times> pyval) list"

subsection \<open>Rounding to binary64 and float multiplication\<close>

definition ilog2 :: "rat \<Rightarrow> int" where
  \<comment> \<open>\<open>\<lfloor>log\<^sub>2 q\<rfloor>\<close> of a positive rational.\<close>
  "ilog2 q =
     (let (a, b) = quotient_of q; d = bitlen a - bitlen b
      in if 2 powi d \<le> q then d else d - 1)"

definition round_half_even :: "rat \<Rightarrow> int" where
  "round_half_even x =
     (let f = \<lfloor>x\<rfloor>; d = x - of_int f
      in if d < 1 / 2 then f
         else if 1 / 2 < d then f + 1
         else if even f then f else f + 1)"

definition round_binary64 :: "rat \<Rightarrow> pyfloat" where
  \<comment> \<open>The binary64 number nearest to a non-zero exact result, ties to even: 53 bits of
      significand, least exponent \<open>-1074\<close>, overflow to infinity from \<open>2\<^sup>1\<^sup>0\<^sup>2\<^sup>4\<close>.\<close>
  "round_binary64 q =
     (let a = \<bar>q\<bar>;
          e = max (ilog2 a - 52) (- 1074);
          n = round_half_even (a / 2 powi e);
          r = of_int n * 2 powi e
      in if 2 ^ 1024 \<le> r then (if q < 0 then NegInf else PosInf)
         else if n = 0 then (if q < 0 then NegZero else Finite 0)
         else Finite (if q < 0 then - r else r))"

fun float_negative :: "pyfloat \<Rightarrow> bool" where
  "float_negative (Finite a) = (a < 0)"
| "float_negative NegZero = True"
| "float_negative NegInf = True"
| "float_negative _ = False"

fun float_zero :: "pyfloat \<Rightarrow> bool" where
  "float_zero (Finite a) = (a = 0)"
| "float_zero NegZero = True"
| "float_zero _ = False"

fun float_infinite :: "pyfloat \<Rightarrow> bool" where
  "float_infinite PosInf = True"
| "float_infinite NegInf = True"
| "float_infinite _ = False"

fun float_value :: "pyfloat \<Rightarrow> rat" where
  "float_value (Finite a) = a"
| "float_value _ = 0"

definition float_mul :: "pyfloat \<Rightarrow> pyfloat \<Rightarrow> pyfloat" where
  "float_mul x y =
     (let neg = (float_negative x \<noteq> float_negative y)
      in if x = NaN \<or> y = NaN then NaN
         else if (float_zero x \<and> float_infinite y) \<or> (float_infinite x \<and> float_zero y) then NaN
         else if float_infinite x \<or> float_infinite y then (if neg then NegInf else PosInf)
         else if float_zero x \<or> float_zero y then (if neg then NegZero else Finite 0)
         else round_binary64 (float_value x * float_value y))"

definition float_of_int :: "int \<Rightarrow> pyfloat" where
  \<comment> \<open>\<^verbatim>\<open>float(n)\<close> for an \<^verbatim>\<open>int\<close> within the binary64 range.\<close>
  "float_of_int n = (if n = 0 then Finite 0 else round_binary64 (of_int n))"

subsection \<open>Operators on decoded documents\<close>

text \<open>
  \<^verbatim>\<open>key in container\<close> for a string key: a key test on a \<^verbatim>\<open>dict\<close>, an element test on a
  \<^verbatim>\<open>list\<close>, a substring test on a \<^verbatim>\<open>str\<close>; every other value is not iterable.
\<close>

fun py_contains :: "string \<Rightarrow> pyval \<Rightarrow> py_error + bool" where
  "py_contains k (PDict kvs) = Inr (map_of kvs k \<noteq> None)"
| "py_contains k (PList xs) = Inr (PStr k \<in> set xs)"
| "py_contains k (PStr s) = Inr (sublist k s)"
| "py_contains k _ = Inl TypeError"

text \<open>
  \<^verbatim>\<open>container[key]\<close> for a string key: only a \<^verbatim>\<open>dict\<close> accepts it (\<^verbatim>\<open>list\<close> and
  \<^verbatim>\<open>str\<close> want integer indices, the other values are not subscriptable).
\<close>

fun py_getitem :: "pyval \<Rightarrow> string \<Rightarrow> py_error + pyval" where
  "py_getitem (PDict kvs) k = (case map_of kvs k of None \<Rightarrow> Inl KeyError | Some v \<Rightarrow> Inr v)"
| "py_getitem _ k = Inl TypeError"

text \<open>
  The items a \<^verbatim>\<open>for\<close> loop visits: the elements of a \<^verbatim>\<open>list\<close>, the keys of a
  \<^verbatim>\<open>dict\<close>, the characters of a \<^verbatim>\<open>str\<close> (each a string of length one).
\<close>

fun py_iter :: "pyval \<Rightarrow> py_error + pyval list" where
  "py_iter (PList xs) = Inr xs"
| "py_iter (PDict kvs) = Inr (map (\<lambda>kv. PStr (fst kv)) kvs)"
| "py_iter (PStr s) = Inr (map (\<lambda>c. PStr [c]) s)"
| "py_iter _ = Inl TypeError"

text \<open>
  \<^verbatim>\<open>value * n\<close> for an \<^verbatim>\<open>int\<close> \<open>n\<close>: arithmetic on numbers (\<^verbatim>\<open>bool\<close> counts as 0 or 1,
  a \<^verbatim>\<open>float\<close> operand converts \<open>n\<close> to \<^verbatim>\<open>float\<close>), repetition on \<^verbatim>\<open>str\<close> and
  \<^verbatim>\<open>list\<close>, \<^verbatim>\<open>TypeError\<close> on \<^verbatim>\<open>None\<close> and \<^verbatim>\<open>dict\<close>.
\<close>

fun py_mul :: "pyval \<Rightarrow> int \<Rightarrow> py_error + pyval" where
  "py_mul (PInt i) n = Inr (PInt (i * n))"
| "py_mul (PBool b) n = Inr (PInt ((if b then 1 else 0) * n))"
| "py_mul (PFloat x) n = Inr (PFloat (float_mul x (float_of_int n)))"
| "py_mul (PStr s) n = Inr (PStr (concat (replicate (nat n) s)))"
| "py_mul (PList xs) n = Inr (PList (concat (replicate (nat n) xs)))"
| "py_mul PNone n = Inl TypeError"
| "py_mul (PDict kvs) n = Inl TypeError"

text \<open>
  Dictionary keys. Python compares keys with \<^verbatim>\<open>==\<close>, so \<^verbatim>\<open>True\<close>, \<^verbatim>\<open>1\<close> and
  \<^verbatim>\<open>1.0\<close> are one key: numbers are keyed by their value. A \<^verbatim>\<open>list\<close> or a \<^verbatim>\<open>dict\<close>
  is unhashable.
\<close>

datatype pykey = KNone | KNum rat | KFloat pyfloat | KStr string

fun hash_key :: "pyval \<Rightarrow> py_error + pykey" where
  "hash_key PNone = Inr KNone"
| "hash_key (PBool b) = Inr (KNum (if b then 1 else 0))"
| "hash_key (PInt i) = Inr (KNum (of_int i))"
| "hash_key (PFloat (Finite a)) = Inr (KNum a)"
| "hash_key (PFloat NegZero) = Inr (KNum 0)"
| "hash_key (PFloat x) = Inr (KFloat x)"
| "hash_key (PStr s) = Inr (KStr s)"
| "hash_key (PList xs) = Inl TypeError"
| "hash_key (PDict kvs) = Inl TypeError"

section \<open>The world outside: clock, portal, JSON decoder\<close>

datatype post_data = NoData | Form "(string \<times> pyval) list" | Json pyval

datatype request = GET string | POST string post_data

text \<open>
  What awaiting a request under \<^verbatim>\<open>async_timeout.timeout\<close> gives: one of the two
  exceptions the session catches, or a response with its status and the result of
  \<^verbatim>\<open>resp.text()\<close>. Reading the body of a response is taken to succeed.
\<close>

datatype http_result = TimeoutError | ClientError | Response int "string option"

text \<open>
  The environment fixes what the outside answers: the \<open>k\<close>-th reading of
  \<^verbatim>\<open>datetime.utcnow()\<close> (in microseconds, the resolution of \<^verbatim>\<open>datetime\<close>), the outcome
  of the \<open>k\<close>-th request, and \<^verbatim>\<open>json.loads\<close> (\<open>None\<close> for \<^verbatim>\<open>JSONDecodeError\<close>).
  A difference of two readings is a \<^verbatim>\<open>timedelta\<close>; its \<^verbatim>\<open>total_seconds()\<close> is the
  number of microseconds divided by \<open>10\<^sup>6\<close> and rounded to a \<^verbatim>\<open>float\<close>, which is below 59
  exactly when the number of microseconds is below \<open>59 \<sqdot> 10\<^sup>6\<close>.
\<close>

record env =
  clock :: "nat \<Rightarrow> int"
  portal :: "nat \<Rightarrow> request \<Rightarrow> http_result"
  json_loads :: "string \<Rightarrow> pyval option"

type_synonym client = nat

text \<open>
  The fields of \<^verbatim>\<open>EdpRedySession\<close>, with the number of clock readings taken and the
  requests issued so far (oldest first).
\<close>

record EdpRedySession =
  username :: string
  password :: string
  aiohttp_client :: client
  session :: "client option"
  session_time :: int
  modules_dict :: "pykey \<rightharpoonup> pyval"
  values_dict :: "string \<rightharpoonup> pyval"
  clock_reads :: nat
  requests :: "request list"

definition utcnow :: "env \<Rightarrow> EdpRedySession \<Rightarrow> int \<times> EdpRedySession" where
  "utcnow env s = (clock env (clock_reads s), s\<lparr>clock_reads := Suc (clock_reads s)\<rparr>)"

definition http_request :: "env \<Rightarrow> request \<Rightarrow> EdpRedySession \<Rightarrow> http_result \<times> EdpRedySession" where
  "http_request env r s = (portal env (length (requests s)) r, s\<lparr>requests := requests s @ [r]\<rparr>)"

section \<open>session.py\<close>

definition URL_BASE :: string where
  "URL_BASE = ''https://redy.edp.pt/EdpPortal/''"

definition URL_LOGIN_PAGE :: string where
  "URL_LOGIN_PAGE = URL_BASE"

definition URL_GET_ACTIVE_POWER :: string where
  "URL_GET_ACTIVE_POWER = URL_BASE @ ''/Consumption/GetActivePower''"

definition URL_GET_SWITCH_MODULES :: string where
  "URL_GET_SWITCH_MODULES = URL_BASE @ ''/HomeAutomation/GetSwitchModules''"

definition URL_SET_STATE_VAR :: string where
  "URL_SET_STATE_VAR = URL_BASE @ ''/HomeAutomation/SetStateVar''"

definition URL_LOGOUT :: string where
  "URL_LOGOUT = URL_BASE @ ''/Login/Logout''"

definition ACTIVE_POWER_ID :: string where
  "ACTIVE_POWER_ID = ''home_active_power''"

definition SESSION_TIME :: int where
  "SESSION_TIME = 59"

definition init :: "env \<Rightarrow> string \<Rightarrow> string \<Rightarrow> client \<Rightarrow> nat \<Rightarrow> request list \<Rightarrow> EdpRedySession" where
  \<comment> \<open>\<^verbatim>\<open>__init__\<close>, in a world that has seen \<open>k\<close> clock readings and the requests \<open>rs\<close>.\<close>
  "init env user pass c k rs =
     \<lparr>username = user, password = pass, aiohttp_client = c, session = None,
      session_time = clock env k, modules_dict = Map.empty, values_dict = Map.empty,
      clock_reads = Suc k, requests = rs\<rparr>"

definition payload_auth :: "EdpRedySession \<Rightarrow> (string \<times> pyval) list" where
  "payload_auth s =
     [(''username'', PStr (username s)), (''password'', PStr (password s)),
      (''screenWidth'', PStr ''1920''), (''screenHeight'', PStr ''1080'')]"

definition async_init_session :: "env \<Rightarrow> EdpRedySession \<Rightarrow> client option \<times> EdpRedySession" where
  "async_init_session env s =
     (let (resp, s1) = http_request env (GET URL_LOGIN_PAGE) s in
      case resp of
        TimeoutError \<Rightarrow> (None, s1)
      | ClientError \<Rightarrow> (None, s1)
      | Response status txt \<Rightarrow>
          if status \<noteq> 200 then (None, s1)
          else
            (let (resp2, s2) = http_request env (POST URL_LOGIN_PAGE (Form (payload_auth s1))) s1 in
             case resp2 of
               TimeoutError \<Rightarrow> (None, s2)
             | ClientError \<Rightarrow> (None, s2)
             | Response status2 txt2 \<Rightarrow>
                 if status2 \<noteq> 200 then (None, s2) else (Some (aiohttp_client s2), s2)))"

definition async_logout :: "env \<Rightarrow> EdpRedySession \<Rightarrow> (py_error + bool) \<times> EdpRedySession" where
  \<comment> \<open>\<^verbatim>\<open>self._session.get\<close> on \<^verbatim>\<open>None\<close> is an \<^verbatim>\<open>AttributeError\<close>.\<close>
  "async_logout env s =
     (case session s of
        None \<Rightarrow> (Inl AttributeError, s)
      | Some c \<Rightarrow>
          (let (resp, s1) = http_request env (GET URL_LOGOUT) s in
           case resp of
             TimeoutError \<Rightarrow> (Inr False, s1)
           | ClientError \<Rightarrow> (Inr False, s1)
           | Response status txt \<Rightarrow>
               if status \<noteq> 200 then (Inr False, s1) else (Inr True, s1)))"

definition create_new_session :: "env \<Rightarrow> EdpRedySession \<Rightarrow> (py_error + bool) \<times> EdpRedySession" where
  \<comment> \<open>The last three lines of \<^verbatim>\<open>async_validate_session\<close> (\<^verbatim>\<open># not valid, create new session\<close>).\<close>
  "create_new_session env s =
     (let (new_session, s1) = async_init_session env s;
          s2 = s1\<lparr>session := new_session\<rparr>;
          (now, s3) = utcnow env s2;
          s4 = s3\<lparr>session_time := now\<rparr>
      in (Inr (session s4 \<noteq> None), s4))"

definition async_validate_session :: "env \<Rightarrow> EdpRedySession \<Rightarrow> (py_error + bool) \<times> EdpRedySession" where
  \<comment> \<open>\<^verbatim>\<open>session_life.total_seconds() < SESSION_TIME\<close>, on microseconds.\<close>
  "async_validate_session env s =
     (case session s of
        None \<Rightarrow> create_new_session env s
      | Some c \<Rightarrow>
          (let (now, s1) = utcnow env s;
               session_life = now - session_time s1
           in if session_life < SESSION_TIME * 1000000 then (Inr True, s1)
              else
                (case async_logout env s1 of
                   (Inl e, s2) \<Rightarrow> (Inl e, s2)
                 | (Inr done, s2) \<Rightarrow> create_new_session env (s2\<lparr>session := None\<rparr>))))"

text \<open>
  The part of \<^verbatim>\<open>async_fetch_active_power\<close> after the document is decoded: the two
  membership tests, then the assignment under \<^verbatim>\<open>try\<close>, whose handler catches
  \<^verbatim>\<open>ValueError\<close> only.
\<close>

definition store_active_power :: "pyval \<Rightarrow> EdpRedySession \<Rightarrow> (py_error + bool) \<times> EdpRedySession" where
  "store_active_power updated_dict s =
     (case py_contains ''Body'' updated_dict of
        Inl e \<Rightarrow> (Inl e, s)
      | Inr has_body \<Rightarrow>
          if \<not> has_body then (Inr False, s)
          else
            (case py_getitem updated_dict ''Body'' of
               Inl e \<Rightarrow> (Inl e, s)
             | Inr body \<Rightarrow>
                 (case py_contains ''ActivePower'' body of
                    Inl e \<Rightarrow> (Inl e, s)
                  | Inr has_power \<Rightarrow>
                      if \<not> has_power then (Inr False, s)
                      else
                        (case (case py_getitem body ''ActivePower'' of
                                 Inl e \<Rightarrow> Inl e
                               | Inr v \<Rightarrow> py_mul v 1000) of
                           Inr w \<Rightarrow>
                             (Inr True, s\<lparr>values_dict := (values_dict s)(ACTIVE_POWER_ID \<mapsto> w)\<rparr>)
                         | Inl e \<Rightarrow>
                             if e = ValueError
                             then (Inr True, s\<lparr>values_dict := (values_dict s)(ACTIVE_POWER_ID \<mapsto> PNone)\<rparr>)
                             else (Inl e, s)))))"

definition async_fetch_active_power :: "env \<Rightarrow> EdpRedySession \<Rightarrow> (py_error + bool) \<times> EdpRedySession" where
  "async_fetch_active_power env s =
     (case async_validate_session env s of
        (Inl e, s1) \<Rightarrow> (Inl e, s1)
      | (Inr valid, s1) \<Rightarrow>
          if \<not> valid then (Inr False, s1)
          else
            (case session s1 of
               None \<Rightarrow> (Inl AttributeError, s1)
             | Some c \<Rightarrow>
                 (let (resp, s2) = http_request env (POST URL_GET_ACTIVE_POWER NoData) s1 in
                  case resp of
                    TimeoutError \<Rightarrow> (Inr False, s2)
                  | ClientError \<Rightarrow> (Inr False, s2)
                  | Response status txt \<Rightarrow>
                      if status \<noteq> 200 then (Inr False, s2)
                      else
                        (case txt of
                           None \<Rightarrow> (Inr False, s2)
                         | Some active_power_str \<Rightarrow>
                             (case json_loads env active_power_str of
                                None \<Rightarrow> (Inr False, s2)
                              | Some updated_dict \<Rightarrow> store_active_power updated_dict s2)))))"

text \<open>
  The loop of \<^verbatim>\<open>async_fetch_modules\<close>: \<^verbatim>\<open>self.modules_dict[module['PKID']] = module\<close>
  for each item. The dictionary is changed in place, so an exception leaves the entries
  already stored.
\<close>

fun store_each :: "pyval list \<Rightarrow> (pykey \<rightharpoonup> pyval) \<Rightarrow> (py_error + unit) \<times> (pykey \<rightharpoonup> pyval)" where
  "store_each [] d = (Inr (), d)"
| "store_each (m # rest) d =
     (case py_getitem m ''PKID'' of
        Inl e \<Rightarrow> (Inl e, d)
      | Inr pkid \<Rightarrow>
          (case hash_key pkid of
             Inl e \<Rightarrow> (Inl e, d)
           | Inr k \<Rightarrow> store_each rest (d(k \<mapsto> m))))"

definition store_modules :: "pyval \<Rightarrow> EdpRedySession \<Rightarrow> (py_error + bool) \<times> EdpRedySession" where
  \<comment> \<open>\<^verbatim>\<open>async_fetch_modules\<close> after the document is decoded.\<close>
  "store_modules updated_dict s =
     (case py_contains ''Body'' updated_dict of
        Inl e \<Rightarrow> (Inl e, s)
      | Inr has_body \<Rightarrow>
          if \<not> has_body then (Inr False, s)
          else
            (case py_getitem updated_dict ''Body'' of
               Inl e \<Rightarrow> (Inl e, s)
             | Inr body \<Rightarrow>
                 (case py_contains ''Modules'' body of
                    Inl e \<Rightarrow> (Inl e, s)
                  | Inr has_modules \<Rightarrow>
                      if \<not> has_modules then (Inr False, s)
                      else
                        (case (case py_getitem body ''Modules'' of
                                 Inl e \<Rightarrow> Inl e
                               | Inr modules \<Rightarrow> py_iter modules) of
                           Inl e \<Rightarrow> (Inl e, s)
                         | Inr items \<Rightarrow>
                             (case store_each items (modules_dict s) of
                                (Inl e, d) \<Rightarrow> (Inl e, s\<lparr>modules_dict := d\<rparr>)
                              | (Inr u, d) \<Rightarrow> (Inr True, s\<lparr>modules_dict := d\<rparr>))))))"

definition async_fetch_modules :: "env \<Rightarrow> EdpRedySession \<Rightarrow> (py_error + bool) \<times> EdpRedySession" where
  "async_fetch_modules env s =
     (case async_validate_session env s of
        (Inl e, s1) \<Rightarrow> (Inl e, s1)
      | (Inr valid, s1) \<Rightarrow>
          if \<not> valid then (Inr False, s1)
          else
            (case session s1 of
               None \<Rightarrow> (Inl AttributeError, s1)
             | Some c \<Rightarrow>
                 (let (resp, s2) =
                        http_request env (POST URL_GET_SWITCH_MODULES (Form [(''filter'', PInt 1)])) s1 in
                  case resp of
                    TimeoutError \<Rightarrow> (Inr False, s2)
                  | ClientError \<Rightarrow> (Inr False, s2)
                  | Response status txt \<Rightarrow>
                      if status \<noteq> 200 then (Inr False, s2)
                      else
                        (case txt of
                           None \<Rightarrow> (Inr False, s2)
                         | Some modules_str \<Rightarrow>
                             (case json_loads env modules_str of
                                None \<Rightarrow> (Inr False, s2)
                              | Some updated_dict \<Rightarrow> store_modules updated_dict s2)))))"

definition async_update :: "env \<Rightarrow> EdpRedySession \<Rightarrow> (py_error + bool) \<times> EdpRedySession" where
  "async_update env s =
     (case async_fetch_modules env s of
        (Inl e, s1) \<Rightarrow> (Inl e, s1)
      | (Inr modules_success, s1) \<Rightarrow>
          (case async_fetch_active_power env s1 of
             (Inl e, s2) \<Rightarrow> (Inl e, s2)
           | (Inr active_power_success, s2) \<Rightarrow>
               (Inr (modules_success \<and> active_power_success), s2)))"

definition async_set_state_var :: "env \<Rightarrow> pyval \<Rightarrow> EdpRedySession \<Rightarrow> (py_error + bool) \<times> EdpRedySession" where
  "async_set_state_var env json_payload s =
     (case async_validate_session env s of
        (Inl e, s1) \<Rightarrow> (Inl e, s1)
      | (Inr valid, s1) \<Rightarrow>
          if \<not> valid then (Inr False, s1)
          else
            (case session s1 of
               None \<Rightarrow> (Inl AttributeError, s1)
             | Some c \<Rightarrow>
                 (let (resp, s2) = http_request env (POST URL_SET_STATE_VAR (Json json_payload)) s1 in
                  case resp of
                    TimeoutError \<Rightarrow> (Inr False, s2)
                  | ClientError \<Rightarrow> (Inr False, s2)
                  | Response status txt \<Rightarrow>
                      if status \<noteq> 200 then (Inr False, s2) else (Inr True, s2))))"

section \<open>Vocabulary of the statements\<close>

fun status_200 :: "http_result \<Rightarrow> bool" where
  "status_200 (Response status txt) = (status = 200)"
| "status_200 _ = False"

definition handshake_ok :: "env \<Rightarrow> nat \<Rightarrow> EdpRedySession \<Rightarrow> bool" where
  \<comment> \<open>Both steps of a login that starts with request number \<open>n\<close> are answered with status 200.\<close>
  "handshake_ok env n s =
     (status_200 (portal env n (GET URL_LOGIN_PAGE)) \<and>
      status_200 (portal env (Suc n) (POST URL_LOGIN_PAGE (Form (payload_auth s)))))"

definition handshake_requests :: "env \<Rightarrow> nat \<Rightarrow> EdpRedySession \<Rightarrow> request list" where
  \<comment> \<open>The requests of that login: the credentials are posted only after a landing page with status 200.\<close>
  "handshake_requests env n s =
     GET URL_LOGIN_PAGE #
     (if status_200 (portal env n (GET URL_LOGIN_PAGE))
      then [POST URL_LOGIN_PAGE (Form (payload_auth s))] else [])"

fun data_request :: "request \<Rightarrow> bool" where
  \<comment> \<open>The requests of the three data and command endpoints.\<close>
  "data_request (POST url d) =
     (url \<in> {URL_GET_ACTIVE_POWER, URL_GET_SWITCH_MODULES, URL_SET_STATE_VAR})"
| "data_request (GET url) = False"

definition module_key :: "pyval \<Rightarrow> py_error + pykey" where
  \<comment> \<open>The dictionary key under which the loop stores a module: \<^verbatim>\<open>module['PKID']\<close>, hashed.\<close>
  "module_key m = (case py_getitem m ''PKID'' of Inl e \<Rightarrow> Inl e | Inr pkid \<Rightarrow> hash_key pkid)"

definition last_with_key :: "pykey \<Rightarrow> pyval list \<Rightarrow> pyval option" where
  \<comment> \<open>The last module of a response that has the given key, if any.\<close>
  "last_with_key k ms =
     (case filter (\<lambda>m. module_key m = Inr k) ms of [] \<Rightarrow> None | m # rest \<Rightarrow> Some (last (m # rest)))"

section \<open>Concrete worlds and sessions\<close>

definition logged_in :: EdpRedySession where
  \<comment> \<open>A session created at time 0, before any clock reading or request of the world.\<close>
  "logged_in =
     \<lparr>username = ''user'', password = ''secret'', aiohttp_client = 7, session = Some 7,
      session_time = 0, modules_dict = Map.empty, values_dict = Map.empty,
      clock_reads = 0, requests = []\<rparr>"

definition young_world :: env where
  \<comment> \<open>The clock reads 58 s (one second before \<^verbatim>\<open>SESSION_TIME\<close>); the portal is unreachable.\<close>
  "young_world =
     \<lparr>clock = (\<lambda>k. 58000000), portal = (\<lambda>k r. ClientError), json_loads = (\<lambda>txt. None)\<rparr>"

definition old_world :: env where
  \<comment> \<open>The clock reads 60 s, then 65 s; the portal refuses the logout and accepts the login.\<close>
  "old_world =
     \<lparr>clock = (\<lambda>k. 60000000 + 5000000 * int k),
      portal = (\<lambda>k r. if r = GET URL_LOGOUT then Response 500 None else Response 200 (Some ''ok'')),
      json_loads = (\<lambda>txt. None)\<rparr>"

definition logged_out :: EdpRedySession where
  \<comment> \<open>No session is held; three clock readings have been taken.\<close>
  "logged_out =
     \<lparr>username = ''user'', password = ''secret'', aiohttp_client = 7, session = None,
      session_time = 0, modules_dict = Map.empty, values_dict = Map.empty,
      clock_reads = 3, requests = []\<rparr>"

definition flaky_world :: env where
  \<comment> \<open>The first credential POST is answered with status 503; every other request with 200.\<close>
  "flaky_world =
     \<lparr>clock = (\<lambda>k. 1000000 * int k),
      portal = (\<lambda>k r. if k = 0 then Response 200 None
                       else if k = 1 then Response 503 None
                       else Response 200 (Some ''ok'')),
      json_loads = (\<lambda>txt. None)\<rparr>"

definition down_world :: env where
  \<comment> \<open>The clock starts at 60 s; the first two requests time out.\<close>
  "down_world =
     \<lparr>clock = (\<lambda>k. 60000000 + int k),
      portal = (\<lambda>k r. if k < 2 then TimeoutError else Response 200 (Some ''ok'')),
      json_loads = (\<lambda>txt. None)\<rparr>"

definition module_A :: pyval where
  "module_A = PDict [(''PKID'', PStr ''A''), (''Name'', PStr ''lamp''), (''State'', PBool False)]"

definition module_B :: pyval where
  "module_B = PDict [(''PKID'', PStr ''B''), (''Name'', PStr ''plug''), (''State'', PBool True)]"

definition module_A_updated :: pyval where
  "module_A_updated = PDict [(''PKID'', PStr ''A''), (''Name'', PStr ''lamp''), (''State'', PBool True)]"

definition sample_loads :: "string \<Rightarrow> pyval option" where
  \<comment> \<open>What \<^verbatim>\<open>json.loads\<close> returns for the response bodies used below; every other text is taken as undecodable.\<close>
  \<open>sample_loads =
     map_of
       [(''{"Body":{"Modules":[{"PKID":"A","Name":"lamp","State":false},{"PKID":"B","Name":"plug","State":true}]}}'',
         PDict [(''Body'', PDict [(''Modules'', PList [module_A, module_B])])]),
        (''{"Body":{"Modules":[{"PKID":"A","Name":"lamp","State":true}]}}'',
         PDict [(''Body'', PDict [(''Modules'', PList [module_A_updated])])]),
        (''{"Body":{"ActivePower": 1.5}}'',
         PDict [(''Body'', PDict [(''ActivePower'', PFloat (Finite (3 / 2)))])]),
        (''{"Body":{"ActivePower": 2}}'',
         PDict [(''Body'', PDict [(''ActivePower'', PInt 2)])]),
        (''{"Body":{"ActivePower": 1.005}}'',
         PDict [(''Body'', PDict [(''ActivePower'', PFloat (round_binary64 (201 / 200)))])]),
        (''{"Body":{"ActivePower": "ab"}}'',
         PDict [(''Body'', PDict [(''ActivePower'', PStr ''ab'')])]),
        (''{"Body": null}'', PDict [(''Body'', PNone)]),
        (''{"Body":{"ActivePower": null}}'',
         PDict [(''Body'', PDict [(''ActivePower'', PNone)])])]\<close>

definition answering :: "string list \<Rightarrow> env" where
  \<comment> \<open>The clock always reads 1 s; the first requests are answered with status 200 and the given bodies, in order, the later ones with status 500.\<close>
  "answering txts =
     \<lparr>clock = (\<lambda>k. 1000000),
      portal = (\<lambda>k r. if k < length txts then Response 200 (Some (txts ! k)) else Response 500 None),
      json_loads = sample_loads\<rparr>"

definition modules_world :: env where
  \<comment> \<open>First the modules A and B, then module A alone with a changed field.\<close>
  \<open>modules_world =
     answering
       [''{"Body":{"Modules":[{"PKID":"A","Name":"lamp","State":false},{"PKID":"B","Name":"plug","State":true}]}}'',
        ''{"Body":{"Modules":[{"PKID":"A","Name":"lamp","State":true}]}}'']\<close>

definition after_first_fetch :: EdpRedySession where
  "after_first_fetch = snd (async_fetch_modules modules_world logged_in)"

definition partial_world :: env where
  \<comment> \<open>The modules are delivered, the power request is refused.\<close>
  \<open>partial_world =
     answering
       [''{"Body":{"Modules":[{"PKID":"A","Name":"lamp","State":false},{"PKID":"B","Name":"plug","State":true}]}}'']\<close>

definition full_world :: env where
  \<open>full_world =
     answering
       [''{"Body":{"Modules":[{"PKID":"A","Name":"lamp","State":true}]}}'',
        ''{"Body":{"ActivePower": 1.5}}'']\<close>




definition null_body_world :: env where
  \<open>null_body_world = answering [''{"Body": null}'']\<close>

definition null_power_world :: env where
  \<open>null_power_world = answering [''{"Body":{"ActivePower": null}}'']\<close>

section \<open>Session validation\<close>

lemma payload_auth_update [simp]:
  "payload_auth (s\<lparr>requests := rs\<rparr>) = payload_auth s"
  "payload_auth (s\<lparr>clock_reads := k\<rparr>) = payload_auth s"
  "payload_auth (s\<lparr>session := c\<rparr>) = payload_auth s"
  "payload_auth (s\<lparr>session_time := t\<rparr>) = payload_auth s"
  by (simp_all add: payload_auth_def)

lemma async_init_session_eq:
  "async_init_session env s =
     (if handshake_ok env (length (requests s)) s then Some (aiohttp_client s) else None,
      s\<lparr>requests := requests s @ handshake_requests env (length (requests s)) s\<rparr>)"
  by (auto simp: async_init_session_def http_request_def handshake_ok_def handshake_requests_def
           split: http_result.splits)

lemma create_new_session_eq:
  "create_new_session env s =
     (Inr (handshake_ok env (length (requests s)) s),
      s\<lparr>requests := requests s @ handshake_requests env (length (requests s)) s,
        session := (if handshake_ok env (length (requests s)) s then Some (aiohttp_client s) else None),
        clock_reads := Suc (clock_reads s),
        session_time := clock env (clock_reads s)\<rparr>)"
  by (simp add: create_new_session_def async_init_session_eq utcnow_def)

lemma async_logout_eq:
  "session s = Some c \<Longrightarrow>
   async_logout env s =
     (Inr (status_200 (portal env (length (requests s)) (GET URL_LOGOUT))),
      s\<lparr>requests := requests s @ [GET URL_LOGOUT]\<rparr>)"
  by (auto simp: async_logout_def http_request_def split: http_result.splits)

lemma validate_fresh:
  "session s = Some c \<Longrightarrow> clock env (clock_reads s) - session_time s < 59 * 1000000 \<Longrightarrow>
   async_validate_session env s = (Inr True, s\<lparr>clock_reads := Suc (clock_reads s)\<rparr>)"
  by (simp add: async_validate_session_def utcnow_def SESSION_TIME_def)

lemma validate_none:
  "session s = None \<Longrightarrow> async_validate_session env s = create_new_session env s"
  by (simp add: async_validate_session_def)

lemma validate_expired:
  "session s = Some c \<Longrightarrow> 59 * 1000000 \<le> clock env (clock_reads s) - session_time s \<Longrightarrow>
   async_validate_session env s =
     create_new_session env
       (s\<lparr>clock_reads := Suc (clock_reads s), requests := requests s @ [GET URL_LOGOUT],
          session := None\<rparr>)"
  by (simp add: async_validate_session_def utcnow_def SESSION_TIME_def async_logout_eq)

text \<open>
  C2. Validating a held session reads the clock once. If the age it finds is below 59 s,
  the result is success and nothing else changes: no request is issued. If the age is 59 s
  or more, the logout request is issued whatever the portal answers to it, then the login
  handshake; the result is success exactly when both steps of the handshake are answered
  with status 200, the handle held afterwards is the one of that login (none if it
  failed), and the session clock is the reading taken after the handshake.
\<close>

theorem validate_by_age:
  assumes "session s = Some c"
  shows "(clock env (clock_reads s) - session_time s < 59 * 1000000 \<longrightarrow>
            async_validate_session env s = (Inr True, s\<lparr>clock_reads := Suc (clock_reads s)\<rparr>)) \<and>
         (59 * 1000000 \<le> clock env (clock_reads s) - session_time s \<longrightarrow>
            (let n = Suc (length (requests s));
                 ok = handshake_ok env n s
             in async_validate_session env s =
                  (Inr ok,
                   s\<lparr>requests := requests s @ GET URL_LOGOUT # handshake_requests env n s,
                     session := (if ok then Some (aiohttp_client s) else None),
                     clock_reads := Suc (Suc (clock_reads s)),
                     session_time := clock env (Suc (clock_reads s))\<rparr>)))"
  using assms
  by (simp add: validate_fresh validate_expired create_new_session_eq handshake_ok_def
        handshake_requests_def payload_auth_def Let_def)

theorem validate_by_age_witness:
  "async_validate_session young_world logged_in = (Inr True, logged_in\<lparr>clock_reads := 1\<rparr>) \<and>
   async_validate_session old_world logged_in =
     (Inr True,
      logged_in\<lparr>requests := [GET URL_LOGOUT, GET URL_LOGIN_PAGE,
                     POST URL_LOGIN_PAGE (Form (payload_auth logged_in))],
        session := Some 7, clock_reads := 2, session_time := 65000000\<rparr>)"
  using validate_by_age [of logged_in 7 young_world] validate_by_age [of logged_in 7 old_world]
  by (simp add: logged_in_def young_world_def old_world_def handshake_ok_def
        handshake_requests_def payload_auth_def Let_def URL_LOGOUT_def URL_LOGIN_PAGE_def URL_BASE_def)

text \<open>
  The login path of \<^verbatim>\<open>async_validate_session\<close>, taken when no session is held or when
  the held one is 59 s old or more (then after the logout request).
\<close>

lemma validate_login_path:
  assumes "session s = None \<or> 59 * 1000000 \<le> clock env (clock_reads s) - session_time s"
  shows "async_validate_session env s =
     (let n = length (requests s) + (if session s = None then 0 else 1);
          k = clock_reads s + (if session s = None then 0 else 1);
          ok = handshake_ok env n s
      in (Inr ok,
          s\<lparr>requests := requests s @ (if session s = None then [] else [GET URL_LOGOUT])
                           @ handshake_requests env n s,
            session := (if ok then Some (aiohttp_client s) else None),
            clock_reads := Suc k,
            session_time := clock env k\<rparr>))"
proof (cases "session s")
  case None
  then show ?thesis
    by (simp add: validate_none create_new_session_eq Let_def)
next
  case (Some c)
  with assms have "59 * 1000000 \<le> clock env (clock_reads s) - session_time s" by simp
  with Some show ?thesis
    by (simp add: validate_expired create_new_session_eq handshake_ok_def
        handshake_requests_def payload_auth_def Let_def)
qed

text \<open>
  C10. Whenever validation takes the login path (no session held, or a session of 59 s or
  more), it returns a boolean and the session clock afterwards is the clock reading taken
  right after the login handshake, whether the handshake succeeded or not.
\<close>

theorem session_time_reset_on_login_path:
  assumes "session s = None \<or> 59 * 1000000 \<le> clock env (clock_reads s) - session_time s"
  shows "(let (r, s') = async_validate_session env s;
              k = clock_reads s + (if session s = None then 0 else 1)
          in (r = Inr True \<or> r = Inr False) \<and>
             clock_reads s' = Suc k \<and> session_time s' = clock env k)"
  using validate_login_path [OF assms] by (simp add: Let_def)

theorem session_time_reset_on_login_path_witness:
  "session_time (snd (async_validate_session flaky_world logged_out)) = 3000000 \<and>
   fst (async_validate_session flaky_world logged_out) = Inr False \<and>
   session_time (snd (async_validate_session old_world logged_in)) = 65000000 \<and>
   fst (async_validate_session old_world logged_in) = Inr True"
  using session_time_reset_on_login_path [of logged_out flaky_world]
    session_time_reset_on_login_path [of logged_in old_world]
  by (simp add: logged_out_def logged_in_def flaky_world_def old_world_def Let_def
        validate_login_path handshake_ok_def handshake_requests_def payload_auth_def
        URL_LOGOUT_def URL_LOGIN_PAGE_def URL_BASE_def)

text \<open>
  C9. Let validation take the login path and let the handshake fail at either step: the
  landing page or the credential POST ends in a timeout, a client error or a status other
  than 200. Then validation returns failure and holds no session handle. The next
  validation starts the handshake again from the landing page, and it succeeds, holding a
  handle, exactly when both of its steps are answered with status 200.
\<close>

theorem failed_login_is_retried:
  assumes path: "session s = None \<or> 59 * 1000000 \<le> clock env (clock_reads s) - session_time s"
    and fail: "\<not> status_200 (portal env n (GET URL_LOGIN_PAGE)) \<or>
               \<not> status_200 (portal env (Suc n) (POST URL_LOGIN_PAGE (Form (payload_auth s))))"
    and n: "n = length (requests s) + (if session s = None then 0 else 1)"
  shows "(let (r, s') = async_validate_session env s;
              (r2, s2) = async_validate_session env s';
              n' = length (requests s')
          in r = Inr False \<and> session s' = None \<and>
             r2 = Inr (handshake_ok env n' s') \<and>
             requests s2 = requests s' @ handshake_requests env n' s' \<and>
             session s2 = (if handshake_ok env n' s' then Some (aiohttp_client s) else None))"
proof -
  have nok: "\<not> handshake_ok env n s"
    using fail by (auto simp: handshake_ok_def)
  obtain r s' where v: "async_validate_session env s = (r, s')"
    by (cases "async_validate_session env s")
  from v nok n have r: "r = Inr False" and s': "session s' = None"
    and c: "aiohttp_client s' = aiohttp_client s"
    using validate_login_path [OF path] by (auto simp: Let_def)
  show ?thesis
    using v r s' c by (simp add: validate_none create_new_session_eq Let_def)
qed

theorem failed_login_is_retried_witness:
  "fst (async_validate_session flaky_world logged_out) = Inr False \<and>
   fst (async_validate_session flaky_world (snd (async_validate_session flaky_world logged_out))) = Inr True \<and>
   fst (async_validate_session down_world logged_in) = Inr False \<and>
   fst (async_validate_session down_world (snd (async_validate_session down_world logged_in))) = Inr True"
  using failed_login_is_retried [of logged_out flaky_world 0]
    failed_login_is_retried [of logged_in down_world 1]
  by (simp add: logged_out_def logged_in_def flaky_world_def down_world_def Let_def
        validate_login_path handshake_ok_def handshake_requests_def payload_auth_def
        URL_LOGOUT_def URL_LOGIN_PAGE_def URL_BASE_def split: prod.splits)

section \<open>The operations on top of validation\<close>

lemma store_active_power_requests:
  "store_active_power d s = (r, s') \<Longrightarrow>
     requests s' = requests s \<and> modules_dict s' = modules_dict s \<and> session s' = session s
     \<and> clock_reads s' = clock_reads s \<and> session_time s' = session_time s"
  by (auto simp: store_active_power_def split: sum.splits if_splits)

lemma store_modules_requests:
  "store_modules d s = (r, s') \<Longrightarrow>
     requests s' = requests s \<and> values_dict s' = values_dict s \<and> session s' = session s
     \<and> clock_reads s' = clock_reads s \<and> session_time s' = session_time s"
  by (auto simp: store_modules_def split: sum.splits if_splits prod.splits)

lemma validate_result:
  "async_validate_session env s = (v, s1) \<Longrightarrow>
     (v = Inr True \<or> v = Inr False) \<and>
     (v = Inr True \<longrightarrow> session s1 \<noteq> None \<and>
        clock env (clock_reads s1 - 1) - session_time s1 < 59 * 1000000) \<and>
     (v = Inr False \<longrightarrow> session s1 = None) \<and>
     take (length (requests s)) (requests s1) = requests s \<and>
     (\<forall>r \<in> set (drop (length (requests s)) (requests s1)). \<not> data_request r) \<and>
     modules_dict s1 = modules_dict s \<and> values_dict s1 = values_dict s"
proof (cases "session s = None \<or> 59 * 1000000 \<le> clock env (clock_reads s) - session_time s")
  case True
  assume "async_validate_session env s = (v, s1)"
  with validate_login_path [OF True] show ?thesis
    by (auto simp: Let_def handshake_requests_def URL_LOGOUT_def URL_LOGIN_PAGE_def
        URL_GET_ACTIVE_POWER_def URL_GET_SWITCH_MODULES_def URL_SET_STATE_VAR_def)
next
  case False
  assume "async_validate_session env s = (v, s1)"
  with False show ?thesis
    by (auto simp: validate_fresh)
qed


lemma store_active_power_snd:
  "requests (snd (store_active_power d s)) = requests s"
  "modules_dict (snd (store_active_power d s)) = modules_dict s"
  using store_active_power_requests [of d s] by (cases "store_active_power d s"; simp)+

lemma store_modules_snd:
  "requests (snd (store_modules d s)) = requests s"
  "values_dict (snd (store_modules d s)) = values_dict s"
  using store_modules_requests [of d s] by (cases "store_modules d s"; simp)+

lemma fetch_active_power_after_validate:
  assumes "async_validate_session env s = (v, s1)"
  shows "(v = Inr False \<longrightarrow> async_fetch_active_power env s = (Inr False, s1)) \<and>
         (v = Inr True \<longrightarrow>
            requests (snd (async_fetch_active_power env s)) =
              requests s1 @ [POST URL_GET_ACTIVE_POWER NoData] \<and>
            modules_dict (snd (async_fetch_active_power env s)) = modules_dict s)"
proof -
  from validate_result [OF assms] have "v = Inr True \<longrightarrow> session s1 \<noteq> None"
    and "modules_dict s1 = modules_dict s" by simp_all
  with assms show ?thesis
    by (auto simp: async_fetch_active_power_def http_request_def store_active_power_snd
        split: http_result.splits option.splits)
qed

lemma fetch_modules_after_validate:
  assumes "async_validate_session env s = (v, s1)"
  shows "(v = Inr False \<longrightarrow> async_fetch_modules env s = (Inr False, s1)) \<and>
         (v = Inr True \<longrightarrow>
            requests (snd (async_fetch_modules env s)) =
              requests s1 @ [POST URL_GET_SWITCH_MODULES (Form [(''filter'', PInt 1)])] \<and>
            values_dict (snd (async_fetch_modules env s)) = values_dict s)"
proof -
  from validate_result [OF assms] have "v = Inr True \<longrightarrow> session s1 \<noteq> None"
    and "values_dict s1 = values_dict s" by simp_all
  with assms show ?thesis
    by (auto simp: async_fetch_modules_def http_request_def store_modules_snd
        split: http_result.splits option.splits)
qed

lemma set_state_var_after_validate:
  assumes "async_validate_session env s = (v, s1)"
  shows "(v = Inr False \<longrightarrow> async_set_state_var env p s = (Inr False, s1)) \<and>
         (v = Inr True \<longrightarrow>
            requests (snd (async_set_state_var env p s)) =
              requests s1 @ [POST URL_SET_STATE_VAR (Json p)])"
proof -
  from validate_result [OF assms] have "v = Inr True \<longrightarrow> session s1 \<noteq> None" by simp
  with assms show ?thesis
    by (auto simp: async_set_state_var_def http_request_def
        split: http_result.splits option.splits)
qed

text \<open>
  C1. Each of the three operations starts with session validation, which returns a boolean
  and issues no request to a data or command endpoint. If validation returns failure, the
  operation returns failure in the very state validation left: it issues no request of its
  own. If validation returns success, a session handle is held, its age at the last clock
  reading is below 59 s, and the operation's single request comes after all requests of
  the validation.
\<close>

theorem no_request_without_valid_session:
  "(let (v, s1) = async_validate_session env s;
        n = length (requests s)
    in (v = Inr True \<or> v = Inr False) \<and>
       take n (requests s1) = requests s \<and>
       (\<forall>r \<in> set (drop n (requests s1)). \<not> data_request r) \<and>
       (v = Inr False \<longrightarrow>
          async_fetch_active_power env s = (Inr False, s1) \<and>
          async_fetch_modules env s = (Inr False, s1) \<and>
          async_set_state_var env payload s = (Inr False, s1)) \<and>
       (v = Inr True \<longrightarrow>
          session s1 \<noteq> None \<and>
          clock env (clock_reads s1 - 1) - session_time s1 < 59 * 1000000 \<and>
          requests (snd (async_fetch_active_power env s)) =
            requests s1 @ [POST URL_GET_ACTIVE_POWER NoData] \<and>
          requests (snd (async_fetch_modules env s)) =
            requests s1 @ [POST URL_GET_SWITCH_MODULES (Form [(''filter'', PInt 1)])] \<and>
          requests (snd (async_set_state_var env payload s)) =
            requests s1 @ [POST URL_SET_STATE_VAR (Json payload)]))"
proof -
  obtain v s1 where v: "async_validate_session env s = (v, s1)"
    by (cases "async_validate_session env s")
  show ?thesis
    using validate_result [OF v] fetch_active_power_after_validate [OF v]
      fetch_modules_after_validate [OF v] set_state_var_after_validate [OF v, of payload] v
    by (simp add: Let_def)
qed


theorem no_request_without_valid_session_witness:
  "async_fetch_active_power flaky_world logged_out =
     (Inr False, snd (async_validate_session flaky_world logged_out)) \<and>
   requests (snd (async_fetch_active_power flaky_world logged_out)) =
     [GET URL_LOGIN_PAGE, POST URL_LOGIN_PAGE (Form (payload_auth logged_out))] \<and>
   requests (snd (async_fetch_modules young_world logged_in)) =
     [POST URL_GET_SWITCH_MODULES (Form [(''filter'', PInt 1)])] \<and>
   requests (snd (async_set_state_var old_world PNone logged_in)) =
     [GET URL_LOGOUT, GET URL_LOGIN_PAGE, POST URL_LOGIN_PAGE (Form (payload_auth logged_in)),
      POST URL_SET_STATE_VAR (Json PNone)]"
  using no_request_without_valid_session [of flaky_world logged_out PNone]
    no_request_without_valid_session [of young_world logged_in PNone]
    no_request_without_valid_session [of old_world logged_in PNone]
  by (simp add: logged_out_def logged_in_def flaky_world_def young_world_def old_world_def Let_def
        validate_login_path validate_fresh handshake_ok_def handshake_requests_def payload_auth_def
        URL_LOGOUT_def URL_LOGIN_PAGE_def URL_BASE_def split: prod.splits)

lemmas sample_defs =
  answering_def sample_loads_def logged_in_def module_A_def module_B_def module_A_updated_def

lemmas run_defs =
  async_fetch_modules_def async_fetch_active_power_def async_update_def
  async_validate_session_def utcnow_def http_request_def SESSION_TIME_def
  store_modules_def store_active_power_def ACTIVE_POWER_ID_def

section \<open>Rounding to binary64\<close>

text \<open>
  Three facts tie \<open>round_binary64\<close> to exact arithmetic: a number with a significand of at
  most 53 bits and an exponent in range is its own rounding; below \<open>2\<^sup>1\<^sup>0\<^sup>2\<^sup>3\<close> the result is
  finite and within half a unit in the last place of the exact number; and the product of
  a non-zero finite float with 1000 is the rounding of the exact product.
\<close>

lemma bitlen_pos: "0 < x \<Longrightarrow> 1 \<le> bitlen x"
  by (simp add: bitlen_alt_def)

lemma ilog2_le:
  assumes "0 < q"
  shows "2 powi (ilog2 q) \<le> q"
proof -
  obtain a b where ab: "quotient_of q = (a, b)"
    by (cases "quotient_of q")
  then have b: "0 < b" and q: "q = of_int a / of_int b"
    using quotient_of_denom_pos quotient_of_div by blast+
  with assms have a: "0 < a"
    by (simp add: zero_less_divide_iff)
  from bitlen_bounds [OF a] have "(2::int) ^ nat (bitlen a - 1) \<le> a" by simp
  then have "(of_int ((2::int) ^ nat (bitlen a - 1)) :: rat) \<le> of_int a"
    by (simp only: of_int_le_iff)
  then have la: "(2::rat) ^ nat (bitlen a - 1) \<le> of_int a" by simp
  from bitlen_bounds [OF b] have "b < (2::int) ^ nat (bitlen b)" by simp
  then have "(of_int b :: rat) < of_int ((2::int) ^ nat (bitlen b))"
    by (simp only: of_int_less_iff)
  then have lb: "(of_int b :: rat) \<le> 2 ^ nat (bitlen b)" by simp
  have "(2::rat) powi (bitlen a - bitlen b - 1) = 2 powi (bitlen a - 1) / 2 powi (bitlen b)"
    using power_int_diff [of "2::rat" "bitlen a - 1" "bitlen b"] by (simp add: algebra_simps)
  also have "\<dots> = 2 ^ nat (bitlen a - 1) / 2 ^ nat (bitlen b)"
    using bitlen_pos [OF a] bitlen_pos [OF b] by (simp add: power_int_def)
  also have "\<dots> \<le> of_int a / of_int b"
    using la lb a b by (intro frac_le) simp_all
  finally have low: "(2::rat) powi (bitlen a - bitlen b - 1) \<le> q"
    using q by simp
  show ?thesis
    using ab low by (simp add: ilog2_def Let_def)
qed

lemma round_half_even_int: "round_half_even (of_int n) = n"
  by (simp add: round_half_even_def Let_def)



lemma round_binary64_exact:
  assumes r: "r = of_int m * 2 powi e" and m: "m \<noteq> 0" "\<bar>m\<bar> < 2 ^ 53"
    and e: "- 1074 \<le> e" "e \<le> 971"
  shows "round_binary64 r = Finite r"
proof -
  define a where "a = \<bar>r\<bar>"
  define e' where "e' = max (ilog2 a - 52) (- 1074)"
  have a: "a = of_int \<bar>m\<bar> * 2 powi e"
    using r by (simp add: a_def abs_mult)
  have apos: "0 < a"
    using m a by simp
  have "(of_int \<bar>m\<bar> :: rat) < of_int (2 ^ 53)"
    using m(2) by (simp only: of_int_less_iff)
  then have "a < 2 ^ 53 * 2 powi e"
    unfolding a by (intro mult_strict_right_mono) simp_all
  also have "\<dots> = 2 powi (53 + e)"
    by (simp add: power_int_add)
  finally have up: "a < 2 powi (53 + e)" .
  have "ilog2 a < 53 + e"
  proof (rule ccontr)
    assume "\<not> ilog2 a < 53 + e"
    then have "(2::rat) powi (53 + e) \<le> 2 powi (ilog2 a)"
      by (intro power_int_increasing) simp_all
    with ilog2_le [OF apos] up show False by simp
  qed
  with e have e'le: "e' \<le> e"
    by (simp add: e'_def)
  have "a / 2 powi e' = of_int \<bar>m\<bar> * 2 powi (e - e')"
    by (simp add: a power_int_diff)
  also have "\<dots> = of_int (\<bar>m\<bar> * 2 ^ nat (e - e'))"
    using e'le by (simp add: power_int_def)
  finally have q: "a / 2 powi e' = of_int (\<bar>m\<bar> * 2 ^ nat (e - e'))" .
  have n: "round_half_even (a / 2 powi e') = \<bar>m\<bar> * 2 ^ nat (e - e')"
    unfolding q by (rule round_half_even_int)
  have restore: "of_int (\<bar>m\<bar> * 2 ^ nat (e - e')) * 2 powi e' = a"
    unfolding q [symmetric] by simp
  have "(2::rat) powi (53 + e) \<le> 2 powi 1024"
    using e by (intro power_int_increasing) simp_all
  with up have small: "a < 2 ^ 1024"
    by simp
  have nz: "\<bar>m\<bar> * 2 ^ nat (e - e') \<noteq> 0"
    using m by simp
  have "round_binary64 r = Finite (if r < 0 then - a else a)"
    using small nz restore n
    by (simp add: round_binary64_def Let_def a_def [symmetric] e'_def [symmetric] not_le)
  then show ?thesis
    by (simp add: a_def)
qed


lemma float_of_int_1000: "float_of_int 1000 = Finite 1000"
  using round_binary64_exact [of 1000 1000 0] by (simp add: float_of_int_def)

lemma float_times_1000:
  "q \<noteq> 0 \<Longrightarrow> float_mul (Finite q) (Finite 1000) = round_binary64 (q * 1000)"
  by (simp add: float_mul_def)


lemma float_1500: "float_mul (Finite (3 / 2)) (Finite 1000) = Finite 1500"
  using round_binary64_exact [of 1500 1500 0] by (simp add: float_times_1000)



section \<open>The combined update\<close>

lemma fetch_active_power_modules_dict:
  "modules_dict (snd (async_fetch_active_power env s)) = modules_dict s"
proof -
  obtain v s1 where v: "async_validate_session env s = (v, s1)"
    by (cases "async_validate_session env s")
  from validate_result [OF v] fetch_active_power_after_validate [OF v] show ?thesis
    by auto
qed

lemma fetch_modules_prefix:
  "prefix (requests s) (requests (snd (async_fetch_modules env s)))"
proof -
  obtain v s1 where v: "async_validate_session env s = (v, s1)"
    by (cases "async_validate_session env s")
  from validate_result [OF v] have "prefix (requests s) (requests s1)"
    by (metis take_is_prefix)
  with validate_result [OF v] fetch_modules_after_validate [OF v] show ?thesis
    by (auto simp: prefix_def)
qed

lemma fetch_active_power_prefix:
  "prefix (requests s) (requests (snd (async_fetch_active_power env s)))"
proof -
  obtain v s1 where v: "async_validate_session env s = (v, s1)"
    by (cases "async_validate_session env s")
  from validate_result [OF v] have "prefix (requests s) (requests s1)"
    by (metis take_is_prefix)
  with validate_result [OF v] fetch_active_power_after_validate [OF v] show ?thesis
    by (auto simp: prefix_def)
qed

text \<open>
  C3. The combined update runs the module fetch and then, in the state the module fetch
  left, the power fetch; the requests of the first precede those of the second. It returns
  success exactly when both fetches return success. When the module fetch succeeds and the
  power fetch fails, the update returns failure and the module mapping is the one the
  module fetch stored.
\<close>

theorem update_modules_then_power:
  "(let (m, s1) = async_fetch_modules env s;
        (p, s2) = async_fetch_active_power env s1;
        (u, s3) = async_update env s
    in (u = Inr True \<longleftrightarrow> m = Inr True \<and> p = Inr True) \<and>
       ((\<exists>b. m = Inr b) \<longrightarrow>
          s3 = s2 \<and> prefix (requests s) (requests s1) \<and> prefix (requests s1) (requests s2)) \<and>
       (m = Inr True \<and> p = Inr False \<longrightarrow>
          u = Inr False \<and> modules_dict s3 = modules_dict s1))"
proof -
  obtain m s1 where m: "async_fetch_modules env s = (m, s1)"
    by (cases "async_fetch_modules env s")
  obtain p s2 where p: "async_fetch_active_power env s1 = (p, s2)"
    by (cases "async_fetch_active_power env s1")
  have "modules_dict s2 = modules_dict s1"
    using fetch_active_power_modules_dict [of env s1] p by simp
  moreover have "prefix (requests s) (requests s1)"
    using fetch_modules_prefix [of s env] m by simp
  moreover have "prefix (requests s1) (requests s2)"
    using fetch_active_power_prefix [of s1 env] p by simp
  ultimately show ?thesis
    using m p by (auto simp: async_update_def split: sum.splits)
qed

theorem update_modules_then_power_witness:
  "fst (async_fetch_modules partial_world logged_in) = Inr True \<and>
   fst (async_update partial_world logged_in) = Inr False \<and>
   modules_dict logged_in (KStr ''A'') = None \<and>
   modules_dict (snd (async_update partial_world logged_in)) (KStr ''A'') = Some module_A \<and>
   fst (async_update full_world logged_in) = Inr True"
  using update_modules_then_power [of partial_world logged_in]
    update_modules_then_power [of full_world logged_in]
  by (simp add: partial_world_def full_world_def run_defs sample_defs float_of_int_1000 float_1500)

section \<open>The module mapping\<close>

lemma store_each_ok:
  "store_each ms d = (Inr u, d') \<Longrightarrow>
     d' k = (case last_with_key k ms of None \<Rightarrow> d k | Some m \<Rightarrow> Some m)"
proof (induction ms arbitrary: d)
  case Nil
  then show ?case by (simp add: last_with_key_def)
next
  case (Cons m ms)
  from Cons.prems obtain pkid k' where
    key: "py_getitem m ''PKID'' = Inr pkid" "hash_key pkid = Inr k'"
    and rest: "store_each ms (d(k' \<mapsto> m)) = (Inr u, d')"
    by (auto split: sum.splits)
  have mk: "module_key m = Inr k'"
    using key by (simp add: module_key_def)
  from Cons.IH [OF rest]
  have "d' k = (case last_with_key k ms of None \<Rightarrow> (d(k' \<mapsto> m)) k | Some m \<Rightarrow> Some m)" .
  then show ?case
    using mk by (auto simp: last_with_key_def split: list.splits option.splits if_splits)
qed

lemma map_add_twice: "(d ++ m) ++ m = d ++ (m :: 'a \<rightharpoonup> 'b)"
  by (simp add: fun_eq_iff map_add_def split: option.splits)

lemma map_upd_add: "d(k \<mapsto> v) ++ m = d ++ (Map.empty(k \<mapsto> v) ++ m)"
  by (simp add: fun_eq_iff map_add_def split: option.splits)

lemma store_each_add:
  "store_each ms d = (fst (store_each ms Map.empty), d ++ snd (store_each ms Map.empty))"
proof (induction ms arbitrary: d)
  case Nil
  then show ?case by simp
next
  case (Cons m ms)
  show ?case
  proof (cases "module_key m")
    case (Inl e)
    then show ?thesis
      by (auto simp: module_key_def split: sum.splits)
  next
    case (Inr k)
    then obtain pkid where key: "py_getitem m ''PKID'' = Inr pkid" "hash_key pkid = Inr k"
      by (auto simp: module_key_def split: sum.splits)
    have step: "store_each (m # ms) d' = store_each ms (d'(k \<mapsto> m))" for d'
      using key by simp
    have "store_each (m # ms) d =
            (fst (store_each ms Map.empty), d(k \<mapsto> m) ++ snd (store_each ms Map.empty))"
      unfolding step by (rule Cons.IH)
    moreover have "store_each (m # ms) Map.empty =
            (fst (store_each ms Map.empty), Map.empty(k \<mapsto> m) ++ snd (store_each ms Map.empty))"
      unfolding step by (rule Cons.IH)
    ultimately show ?thesis
      by (simp only: fst_conv snd_conv map_upd_add [of d k m])
  qed
qed

lemma store_each_twice:
  "store_each ms (snd (store_each ms d)) = store_each ms d"
proof -
  have "store_each ms (snd (store_each ms d)) =
          (fst (store_each ms Map.empty),
           (d ++ snd (store_each ms Map.empty)) ++ snd (store_each ms Map.empty))"
    by (subst (2) store_each_add, subst store_each_add) simp
  also have "\<dots> = store_each ms d"
    by (subst (3) store_each_add) (simp only: map_add_twice)
  finally show ?thesis .
qed

lemma store_each_again:
  "store_each ms d = (r, d') \<Longrightarrow> store_each ms d' = (r, d')"
  using store_each_twice [of ms d] by simp

text \<open>
  C7. Storing the modules of one decoded response a second time changes nothing: the
  result and the whole state, the module mapping included, are those of storing it once,
  for every document and every starting state.
\<close>

theorem store_modules_idempotent:
  "store_modules doc (snd (store_modules doc s)) = store_modules doc s"
  by (auto simp: store_modules_def split: sum.splits prod.splits dest: store_each_again)

lemma store_modules_success:
  assumes "store_modules doc s = (Inr True, s')"
  shows "\<exists>body mods ms d.
           py_getitem doc ''Body'' = Inr body \<and> py_getitem body ''Modules'' = Inr mods \<and>
           py_iter mods = Inr ms \<and> store_each ms (modules_dict s) = (Inr (), d) \<and>
           s' = s\<lparr>modules_dict := d\<rparr>"
  using assms
  by (auto simp: store_modules_def split: sum.splits prod.splits if_splits)

lemma fetch_modules_success:
  assumes "async_fetch_modules env s = (Inr True, s')"
  shows "\<exists>s1 txt doc.
           async_validate_session env s = (Inr True, s1) \<and>
           portal env (length (requests s1))
             (POST URL_GET_SWITCH_MODULES (Form [(''filter'', PInt 1)])) = Response 200 (Some txt) \<and>
           json_loads env txt = Some doc \<and>
           store_modules doc
             (s1\<lparr>requests := requests s1 @ [POST URL_GET_SWITCH_MODULES (Form [(''filter'', PInt 1)])]\<rparr>)
             = (Inr True, s')"
  using assms
  by (auto simp: async_fetch_modules_def http_request_def
      split: sum.splits prod.splits if_splits option.splits http_result.splits)

text \<open>
  C6. After a successful module fetch, whose last request was answered with the modules
  \<open>ms\<close>, every key under which a module of \<open>ms\<close> is stored holds the last module of \<open>ms\<close>
  with that key, and every other key holds what it held before. Witness: after a fetch of
  A and B, a fetch of an updated A alone leaves the updated A and the first B.
\<close>

theorem fetch_modules_replaces_by_key:
  assumes "async_fetch_modules env s = (Inr True, s')"
  shows "\<exists>txt doc body mods ms.
           portal env (length (requests s') - 1)
             (POST URL_GET_SWITCH_MODULES (Form [(''filter'', PInt 1)])) = Response 200 (Some txt) \<and>
           json_loads env txt = Some doc \<and>
           py_getitem doc ''Body'' = Inr body \<and> py_getitem body ''Modules'' = Inr mods \<and>
           py_iter mods = Inr ms \<and>
           (\<forall>k. modules_dict s' k =
                  (case last_with_key k ms of None \<Rightarrow> modules_dict s k | Some m \<Rightarrow> Some m))"
proof -
  let ?req = "POST URL_GET_SWITCH_MODULES (Form [(''filter'', PInt 1)])"
  from fetch_modules_success [OF assms] obtain s1 body_text doc where
    v: "async_validate_session env s = (Inr True, s1)"
    and resp: "portal env (length (requests s1)) ?req = Response 200 (Some body_text)"
    and doc: "json_loads env body_text = Some doc"
    and st: "store_modules doc (s1\<lparr>requests := requests s1 @ [?req]\<rparr>) = (Inr True, s')"
    by blast
  from store_modules_success [OF st] obtain body mods ms d where
    b: "py_getitem doc ''Body'' = Inr body" "py_getitem body ''Modules'' = Inr mods"
       "py_iter mods = Inr ms"
    and each: "store_each ms (modules_dict s1) = (Inr (), d)"
    and s': "s' = s1\<lparr>requests := requests s1 @ [?req], modules_dict := d\<rparr>"
    by auto
  have "modules_dict s1 = modules_dict s"
    using validate_result [OF v] by simp
  with each have "d k = (case last_with_key k ms of None \<Rightarrow> modules_dict s k | Some m \<Rightarrow> Some m)" for k
    using store_each_ok [of ms "modules_dict s" "()" d k] by simp
  moreover have "length (requests s') - 1 = length (requests s1)"
    using s' by simp
  ultimately show ?thesis
    using resp doc b s' by auto
qed

lemma first_fetch:
  "async_fetch_modules modules_world logged_in =
     (Inr True,
      logged_in\<lparr>clock_reads := 1,
        requests := [POST URL_GET_SWITCH_MODULES (Form [(''filter'', PInt 1)])],
        modules_dict := [KStr ''A'' \<mapsto> module_A, KStr ''B'' \<mapsto> module_B]\<rparr>)"
  by (simp add: modules_world_def run_defs sample_defs)

theorem fetch_modules_replaces_by_key_witness:
  "fst (async_fetch_modules modules_world after_first_fetch) = Inr True \<and>
   modules_dict after_first_fetch (KStr ''A'') = Some module_A \<and>
   modules_dict after_first_fetch (KStr ''B'') = Some module_B \<and>
   modules_dict (snd (async_fetch_modules modules_world after_first_fetch)) (KStr ''A'')
     = Some module_A_updated \<and>
   modules_dict (snd (async_fetch_modules modules_world after_first_fetch)) (KStr ''B'')
     = Some module_B"
  using fetch_modules_replaces_by_key [of modules_world after_first_fetch
      "snd (async_fetch_modules modules_world after_first_fetch)"]
  by (simp add: after_first_fetch_def first_fetch)
     (simp add: modules_world_def run_defs sample_defs)

section \<open>The active power\<close>









section \<open>Documents of an unexpected shape\<close>

text \<open>
  What holds for an undecodable body and for objects that lack a field: the fetch returns
  failure and stores nothing.
\<close>

lemma undecodable_body_fails:
  assumes "async_validate_session env s = (Inr True, s1)"
    and "json_loads env body_text = None"
  shows "portal env (length (requests s1)) (POST URL_GET_ACTIVE_POWER NoData)
           = Response 200 (Some body_text) \<Longrightarrow>
         async_fetch_active_power env s =
           (Inr False, s1\<lparr>requests := requests s1 @ [POST URL_GET_ACTIVE_POWER NoData]\<rparr>)"
    and "portal env (length (requests s1)) (POST URL_GET_SWITCH_MODULES (Form [(''filter'', PInt 1)]))
           = Response 200 (Some body_text) \<Longrightarrow>
         async_fetch_modules env s =
           (Inr False,
            s1\<lparr>requests := requests s1 @ [POST URL_GET_SWITCH_MODULES (Form [(''filter'', PInt 1)])]\<rparr>)"
  using assms validate_result [OF assms(1)]
  by (auto simp: async_fetch_active_power_def async_fetch_modules_def http_request_def)

lemma object_without_field_fails:
  assumes "map_of kvs ''Body'' = None \<or>
           (\<exists>body. map_of kvs ''Body'' = Some (PDict body) \<and> map_of body field = None)"
  shows "field = ''ActivePower'' \<Longrightarrow> store_active_power (PDict kvs) s = (Inr False, s)"
    and "field = ''Modules'' \<Longrightarrow> store_modules (PDict kvs) s = (Inr False, s)"
  using assms by (auto simp: store_active_power_def store_modules_def)

text \<open>
  C4 asks that a well-formed body without \<^verbatim>\<open>Body\<close> or without the field below it makes
  the fetch return failure. That holds for the objects of the two lemmas above, and not for
  every well-formed body: when the body \<^verbatim>\<open>{"Body": null}\<close> is answered with status 200
  to a valid session, the test \<^verbatim>\<open>"ActivePower" not in updated_dict["Body"]\<close> (and
  likewise the one for \<^verbatim>\<open>"Modules"\<close>) is applied to \<^verbatim>\<open>None\<close>, and both fetches end
  in a \<^verbatim>\<open>TypeError\<close> that nothing catches.
\<close>

theorem null_body_raises:
  "fst (async_fetch_active_power null_body_world logged_in) = Inl TypeError \<and>
   fst (async_fetch_modules null_body_world logged_in) = Inl TypeError"
  by (simp add: null_body_world_def run_defs sample_defs)

text \<open>
  C5 asks that a value which cannot be converted is stored as unknown while the fetch
  succeeds. For the body \<^verbatim>\<open>{"Body":{"ActivePower": null}}\<close> the product
  \<^verbatim>\<open>None * 1000\<close> raises a \<^verbatim>\<open>TypeError\<close>; the handler catches \<^verbatim>\<open>ValueError\<close> only,
  so the fetch ends in the exception and stores no value, known or unknown.
\<close>

theorem null_power_raises:
  "fst (async_fetch_active_power null_power_world logged_in) = Inl TypeError \<and>
   values_dict (snd (async_fetch_active_power null_power_world logged_in)) ACTIVE_POWER_ID = None"
  by (simp add: null_power_world_def run_defs sample_defs)

end
